theory Spec2Isabelle
  imports Complex_Main
begin

unbundle bit_operations_syntax

section \<open>The Gradio demo of InfiniteYou-FLUX (app.py)\<close>

text \<open>
  The file app.py is a form around a pipeline object of class \<open>InfUFluxPipeline\<close>.
  Two functions carry the logic: \<open>prepare_pipeline\<close>, which brings the global pipeline
  and the dictionary \<open>loaded_pipeline_config\<close> to a requested configuration, and
  \<open>generate_image\<close>, the handler of the Generate button. Both read and write module
  globals and call into libraries (the pipeline class, torch, gradio). The embedding
  passes the globals as a record, returns a raised exception as \<open>Inl\<close>, appends every
  call that leaves the file to a trace, and takes the answers of the libraries from
  an environment record.
\<close>

subsection \<open>Exceptions\<close>

text \<open>
  \<open>except Exception\<close> catches the subclasses of \<open>Exception\<close> and lets
  \<open>KeyboardInterrupt\<close>, \<open>SystemExit\<close> and \<open>GeneratorExit\<close> pass. The string carried
  by each constructor is \<open>str(e)\<close>.
\<close>

datatype pyexc =
    NameError string
  | TypeError string
  | OtherException string
  | NonException string

fun is_Exception :: "pyexc \<Rightarrow> bool" where
  "is_Exception (NonException _) = False"
| "is_Exception _ = True"

fun str_exc :: "pyexc \<Rightarrow> string" where
  "str_exc (NameError m) = m"
| "str_exc (TypeError m) = m"
| "str_exc (OtherException m) = m"
| "str_exc (NonException m) = m"

subsection \<open>Decimal rendering of an integer in an f-string\<close>

definition digit_char :: "nat \<Rightarrow> char" where
  "digit_char d = ''0123456789'' ! d"

function str_nat :: "nat \<Rightarrow> string" where
  "str_nat n = (if n < 10 then [digit_char n] else str_nat (n div 10) @ [digit_char (n mod 10)])"
  by pat_completeness auto
termination
  by (relation "measure id") auto

declare str_nat.simps [simp del]

definition str_int :: "int \<Rightarrow> string" where
  "str_int i = (if i < 0 then CHR ''-'' # str_nat (nat (- i)) else str_nat (nat i))"

subsection \<open>Values that cross the boundary of the file\<close>

text \<open>A PIL image is opaque to app.py; an image widget left empty delivers \<open>None\<close>.\<close>

datatype image = Img nat

text \<open>The keyword arguments of \<open>InfUFluxPipeline(...)\<close> at lines 71 to 78.\<close>

record ctor_args =
  ca_base_model_path :: string
  ca_infu_model_path :: string
  ca_insightface_root_path :: string
  ca_image_proj_num_tokens :: int
  ca_infu_flux_version :: string
  ca_model_version :: string

text \<open>One entry of the list given to \<open>load_loras\<close>: file path, adapter name, weight.\<close>

type_synonym lora = "string \<times> string \<times> real"

text \<open>The keyword arguments of the call \<open>pipeline(...)\<close> at lines 113 to 125.\<close>

record call_args =
  pc_id_image :: "image option"
  pc_prompt :: string
  pc_control_image :: "image option"
  pc_seed :: int
  pc_width :: int
  pc_height :: int
  pc_guidance_scale :: real
  pc_num_steps :: int
  pc_infusenet_conditioning_scale :: real
  pc_infusenet_guidance_start :: real
  pc_infusenet_guidance_end :: real

text \<open>
  Modelled from the spec: the class \<open>InfUFluxPipeline\<close> (pipelines/pipeline_infu_flux.py)
  is imported at line 23 and its source is not at hand. The spec says it is
  constructed with, among others, a version tag; app.py reads the attribute
  \<open>model_version\<close> of the object at line 64, and that attribute is taken to hold the
  constructor argument of the same name. A pipeline object is which object it is
  (its identity) and that attribute. Everything else the class does is an answer of
  the environment below.
\<close>

record pipeline_obj =
  obj_id :: nat
  model_version :: string

text \<open>
  The global name \<open>pipeline\<close>. It starts as \<open>None\<close> (line 42); \<open>del pipeline\<close> at line 65
  removes the name from the module, and it stays removed when the constructor raises.
\<close>

datatype pipeline_var = Unbound | PNone | PObj pipeline_obj

record pipeline_config =
  cfg_model_version :: string
  cfg_enable_realism :: bool
  cfg_enable_anti_blur :: bool

text \<open>What the file does to the outside, in the order it does it.\<close>

datatype event =
    Print string
  | DelPipeline pipeline_var
  | Construct ctor_args
  | DeleteAdapters nat "string list"
  | LoadLoras nat "lora list"
  | TorchSeed
  | PipelineCall nat call_args
  | GrErrorConstructed string

record world =
  pipeline :: pipeline_var
  loaded_pipeline_config :: pipeline_config
  next_id :: nat
  trace :: "event list"

text \<open>The parsed command line (lines 25 to 28).\<close>

record cli_args =
  base_model_path :: string
  clip_encoder_path :: "string option"

text \<open>
  The libraries. Each answer may depend on everything done so far (the trace):
  whether the constructor, \<open>pipe.delete_adapters\<close> or \<open>load_loras\<close> raise, the number
  \<open>torch.seed()\<close> returns, and what the call of the pipeline returns or raises.
\<close>

record env =
  args :: cli_args
  ctor_raises :: "event list \<Rightarrow> ctor_args \<Rightarrow> pyexc option"
  delete_adapters_raises :: "event list \<Rightarrow> nat \<Rightarrow> string list \<Rightarrow> pyexc option"
  load_loras_raises :: "event list \<Rightarrow> nat \<Rightarrow> lora list \<Rightarrow> pyexc option"
  torch_seed :: "event list \<Rightarrow> int"
  pipeline_call :: "event list \<Rightarrow> pipeline_obj \<Rightarrow> call_args \<Rightarrow> pyexc + image"

definition emit :: "event list \<Rightarrow> world \<Rightarrow> world" where
  "emit evs st = st\<lparr>trace := trace st @ evs\<rparr>"

subsection \<open>Module level (lines 33 to 47)\<close>

definition STAGE_1 :: string where "STAGE_1 = ''sim_stage1''"
definition STAGE_2 :: string where "STAGE_2 = ''aes_stage2''"
definition DEFAULT_VERSION :: string where "DEFAULT_VERSION = STAGE_2"
definition ENABLE_ANTI_BLUR_DEFAULT :: bool where "ENABLE_ANTI_BLUR_DEFAULT = False"
definition ENABLE_REALISM_DEFAULT :: bool where "ENABLE_REALISM_DEFAULT = False"

definition initial_world :: world where
  "initial_world =
     \<lparr>pipeline = PNone,
      loaded_pipeline_config =
        \<lparr>cfg_model_version = ''aes_stage2'', cfg_enable_realism = False,
         cfg_enable_anti_blur = False\<rparr>,
      next_id = 0,
      trace = []\<rparr>"

subsection \<open>prepare_pipeline (lines 49 to 86)\<close>

text \<open>The dictionary \<open>loaded_pipeline_config\<close> after the assignments at lines 60 to 62.\<close>

definition requested :: "string \<Rightarrow> bool \<Rightarrow> bool \<Rightarrow> pipeline_config" where
  "requested mv enable_realism enable_anti_blur =
     \<lparr>cfg_model_version = mv, cfg_enable_realism = enable_realism,
      cfg_enable_anti_blur = enable_anti_blur\<rparr>"

text \<open>The arguments of the constructor at lines 67 and 71 to 78.\<close>

definition ctor_args_for :: "env \<Rightarrow> string \<Rightarrow> ctor_args" where
  "ctor_args_for e mv =
     \<lparr>ca_base_model_path = base_model_path (args e),
      ca_infu_model_path = ''./models/InfiniteYou/infu_flux_v1.0/'' @ mv,
      ca_insightface_root_path = ''./models/InfiniteYou/supports/insightface'',
      ca_image_proj_num_tokens = 8,
      ca_infu_flux_version = ''v1.0'',
      ca_model_version = mv\<rparr>"

text \<open>The list \<open>loras\<close> built at lines 81 to 85.\<close>

definition loras_for :: "bool \<Rightarrow> bool \<Rightarrow> lora list" where
  "loras_for enable_realism enable_anti_blur =
     (if enable_realism
      then [(''./models/InfiniteYou/supports/optional_loras/flux_realism_lora.safetensors'',
             ''realism'', 1.0)]
      else []) @
     (if enable_anti_blur
      then [(''./models/InfiniteYou/supports/optional_loras/flux_anti_blur_lora.safetensors'',
             ''anti_blur'', 1.0)]
      else [])"

text \<open>Lines 80 to 86, on the object the global is bound to at that point.\<close>

definition reload_adapters ::
  "env \<Rightarrow> world \<Rightarrow> pipeline_obj \<Rightarrow> bool \<Rightarrow> bool \<Rightarrow> (pyexc + unit) \<times> world" where
  "reload_adapters e st p enable_realism enable_anti_blur =
     (let names = [''realism'', ''anti_blur''];
          st1 = emit [DeleteAdapters (obj_id p) names] st
      in case delete_adapters_raises e (trace st) (obj_id p) names of
           Some x \<Rightarrow> (Inl x, st1)
         | None \<Rightarrow>
             (let loras = loras_for enable_realism enable_anti_blur;
                  st2 = emit [LoadLoras (obj_id p) loras] st1
              in case load_loras_raises e (trace st1) (obj_id p) loras of
                   Some x \<Rightarrow> (Inl x, st2)
                 | None \<Rightarrow> (Inr (), st2)))"

text \<open>Lines 65 to 78: release the old object, build a new one.\<close>

definition rebuild ::
  "env \<Rightarrow> world \<Rightarrow> string \<Rightarrow> (pyexc + pipeline_obj) \<times> world" where
  "rebuild e st mv =
     (let st1 = emit [DelPipeline (pipeline st)] (st\<lparr>pipeline := Unbound\<rparr>);
          model_path = ''./models/InfiniteYou/infu_flux_v1.0/'' @ mv;
          st2 = emit [Print (''loading model from '' @ model_path),
                      Print (''loading flux model from '' @ base_model_path (args e))] st1;
          ca = ctor_args_for e mv;
          st3 = emit [Construct ca] st2
      in case ctor_raises e (trace st2) ca of
           Some x \<Rightarrow> (Inl x, st3)
         | None \<Rightarrow>
             (let p = \<lparr>obj_id = next_id st3, model_version = mv\<rparr>
              in (Inr p, st3\<lparr>pipeline := PObj p, next_id := Suc (next_id st3)\<rparr>)))"

definition prepare_pipeline ::
  "env \<Rightarrow> world \<Rightarrow> string \<Rightarrow> bool \<Rightarrow> bool \<Rightarrow> (pyexc + unit) \<times> world" where
  "prepare_pipeline e st mv enable_realism enable_anti_blur =
     (case pipeline st of
        Unbound \<Rightarrow> (Inl (NameError ''name 'pipeline' is not defined''), st)
      | v \<Rightarrow>
        if v \<noteq> PNone
           \<and> cfg_enable_realism (loaded_pipeline_config st) = enable_realism
           \<and> cfg_enable_anti_blur (loaded_pipeline_config st) = enable_anti_blur
           \<and> mv = cfg_model_version (loaded_pipeline_config st)
        then (Inr (), st)
        else
          (let st1 = st\<lparr>loaded_pipeline_config :=
                        requested mv enable_realism enable_anti_blur\<rparr>
           in case (case v of PObj p \<Rightarrow> if model_version p \<noteq> mv then None else Some p
                              | _ \<Rightarrow> None) of
                Some p \<Rightarrow> reload_adapters e st1 p enable_realism enable_anti_blur
              | None \<Rightarrow>
                  (case rebuild e st1 mv of
                     (Inl x, st2) \<Rightarrow> (Inl x, st2)
                   | (Inr p, st2) \<Rightarrow> reload_adapters e st2 p enable_realism enable_anti_blur)))"

subsection \<open>generate_image (lines 89 to 131)\<close>

text \<open>
  \<open>gr.update(...)\<close>: the keyword arguments given. \<open>gr.update()\<close> gives none and
  changes nothing in the component it is sent to.
\<close>

datatype gr_update = GrUpdate "image option" "string option"

text \<open>What the browser shows in the component \<open>image_output\<close> (line 194).\<close>

record image_output =
  out_value :: "image option"
  out_label :: string

fun apply_update :: "gr_update \<Rightarrow> image_output \<Rightarrow> image_output" where
  "apply_update (GrUpdate v l) w =
     \<lparr>out_value = (case v of None \<Rightarrow> out_value w | Some i \<Rightarrow> Some i),
      out_label = (case l of None \<Rightarrow> out_label w | Some s \<Rightarrow> s)\<rparr>"

text \<open>
  The expression \<open>pipeline(...)\<close> inside the \<open>try\<close>: looking up the global comes
  first, then the call. Calling \<open>None\<close> is a TypeError.
\<close>

definition call_pipeline ::
  "env \<Rightarrow> world \<Rightarrow> call_args \<Rightarrow> (pyexc + image) \<times> world" where
  "call_pipeline e st ca =
     (case pipeline st of
        Unbound \<Rightarrow> (Inl (NameError ''name 'pipeline' is not defined''), st)
      | PNone \<Rightarrow> (Inl (TypeError (CHR 0x27 # ''NoneType' object is not callable'')), st)
      | PObj p \<Rightarrow> (pipeline_call e (trace st) p ca, emit [PipelineCall (obj_id p) ca] st))"

definition generate_image ::
  "env \<Rightarrow> world \<Rightarrow> image option \<Rightarrow> image option \<Rightarrow> string \<Rightarrow> int \<Rightarrow> int \<Rightarrow> int \<Rightarrow> real \<Rightarrow> int
     \<Rightarrow> real \<Rightarrow> real \<Rightarrow> real \<Rightarrow> bool \<Rightarrow> bool \<Rightarrow> string \<Rightarrow> (pyexc + gr_update) \<times> world" where
  "generate_image e st input_image control_img prompt_text seed0 w h gscale nsteps
       cond_scale g_start g_end enable_realism enable_anti_blur mv =
     (case prepare_pipeline e st mv enable_realism enable_anti_blur of
        (Inl x, st1) \<Rightarrow> (Inl x, st1)
      | (Inr _, st1) \<Rightarrow>
          (let (sd, st2) =
                 (if seed0 = 0
                  then (torch_seed e (trace st1) AND 0xFFFFFFFF, emit [TorchSeed] st1)
                  else (seed0, st1));
               ca = \<lparr>pc_id_image = input_image, pc_prompt = prompt_text,
                     pc_control_image = control_img, pc_seed = sd, pc_width = w,
                     pc_height = h, pc_guidance_scale = gscale, pc_num_steps = nsteps,
                     pc_infusenet_conditioning_scale = cond_scale,
                     pc_infusenet_guidance_start = g_start,
                     pc_infusenet_guidance_end = g_end\<rparr>
           in case call_pipeline e st2 ca of
                (Inl x, st3) \<Rightarrow>
                  if is_Exception x
                  then (Inr (GrUpdate None None),
                        emit [Print (str_exc x),
                              GrErrorConstructed (''An error occurred: '' @ str_exc x)] st3)
                  else (Inl x, st3)
              | (Inr img, st3) \<Rightarrow>
                  (Inr (GrUpdate (Some img)
                          (Some (''Generated image, seed = '' @ str_int sd))), st3)))"

subsection \<open>generate_examples (lines 134 to 135)\<close>

definition generate_examples ::
  "env \<Rightarrow> world \<Rightarrow> image option \<Rightarrow> image option \<Rightarrow> string \<Rightarrow> int \<Rightarrow> bool \<Rightarrow> bool \<Rightarrow> string
     \<Rightarrow> (pyexc + gr_update) \<times> world" where
  "generate_examples e st id_img control_img prompt_text seed0 enable_realism
       enable_anti_blur mv =
     generate_image e st id_img control_img prompt_text seed0 864 1152 3.5 30 1.0 0.0 1.0
       enable_realism enable_anti_blur mv"

subsection \<open>The form and the process (lines 159 to 263)\<close>

text \<open>
  A generation request: one value for each parameter of \<open>generate_image\<close> (lines 90
  to 103). The click handler is registered with one input component per parameter,
  in the same order (lines 207 to 222).
\<close>

record request =
  rq_input_image :: "image option"
  rq_control_image :: "image option"
  rq_prompt :: string
  rq_seed :: int
  rq_width :: int
  rq_height :: int
  rq_guidance_scale :: real
  rq_num_steps :: int
  rq_infusenet_conditioning_scale :: real
  rq_infusenet_guidance_start :: real
  rq_infusenet_guidance_end :: real
  rq_enable_realism :: bool
  rq_enable_anti_blur :: bool
  rq_model_version :: string

text \<open>The call of \<open>generate_image\<close> with every parameter given by name.\<close>

definition generate_image_request :: "env \<Rightarrow> world \<Rightarrow> request \<Rightarrow> (pyexc + gr_update) \<times> world" where
  "generate_image_request e st r =
     generate_image e st (rq_input_image r) (rq_control_image r) (rq_prompt r) (rq_seed r)
       (rq_width r) (rq_height r) (rq_guidance_scale r) (rq_num_steps r)
       (rq_infusenet_conditioning_scale r) (rq_infusenet_guidance_start r)
       (rq_infusenet_guidance_end r) (rq_enable_realism r) (rq_enable_anti_blur r)
       (rq_model_version r)"

text \<open>
  What Gradio does with the outcome of a handler whose output is \<open>image_output\<close>: a
  returned update is applied to the component; a handler that raises leaves the
  component as it was and its exception is what the browser reports as an error.
  \<open>gr.Error\<close> is an exception class, so an instance reaches the browser only by
  being raised out of the handler.
\<close>

definition deliver :: "(pyexc + gr_update) \<Rightarrow> image_output \<Rightarrow> image_output" where
  "deliver out w = (case out of Inl _ \<Rightarrow> w | Inr u \<Rightarrow> apply_update u w)"

definition error_notifications :: "(pyexc + gr_update) \<Rightarrow> nat" where
  "error_notifications out = (case out of Inl _ \<Rightarrow> 1 | Inr _ \<Rightarrow> 0)"

text \<open>Line 260: the first configuration, at import time.\<close>

definition startup :: "env \<Rightarrow> (pyexc + unit) \<times> world" where
  "startup e =
     prepare_pipeline e initial_world DEFAULT_VERSION ENABLE_REALISM_DEFAULT
       ENABLE_ANTI_BLUR_DEFAULT"

text \<open>
  Lines 262 to 263: the queue hands the clicks to the handler one after the other;
  a request that raises is over, and the next one finds the globals as it left them.
\<close>

fun serve ::
  "env \<Rightarrow> world \<Rightarrow> request list \<Rightarrow> (pyexc + gr_update) list \<times> world" where
  "serve e st [] = ([], st)"
| "serve e st (r # rs) =
     (case generate_image_request e st r of
        (out, st1) \<Rightarrow> (case serve e st1 rs of (outs, st2) \<Rightarrow> (out # outs, st2)))"

text \<open>A run of the process: an exception at line 260 ends it before the form is served.\<close>

definition process_run ::
  "env \<Rightarrow> request list \<Rightarrow> pyexc \<times> world + (pyexc + gr_update) list \<times> world" where
  "process_run e rs =
     (case startup e of
        (Inl x, st) \<Rightarrow> Inl (x, st)
      | (Inr _, st) \<Rightarrow> Inr (serve e st rs))"

subsection \<open>Reading a trace\<close>

text \<open>The events a step added to the trace.\<close>

definition emitted :: "world \<Rightarrow> world \<Rightarrow> event list" where
  "emitted st st' = drop (length (trace st)) (trace st')"

fun is_Construct :: "event \<Rightarrow> bool" where
  "is_Construct (Construct _) = True"
| "is_Construct _ = False"

fun is_LoadLoras :: "event \<Rightarrow> bool" where
  "is_LoadLoras (LoadLoras _ _) = True"
| "is_LoadLoras _ = False"


text \<open>
  A state the process can be in when a request arrives: the object the global is
  bound to, if any, was built for the version the configuration names, and its
  identity is older than the next one to be given out.
\<close>

definition consistent :: "world \<Rightarrow> bool" where
  "consistent st =
     (case pipeline st of
        PObj p \<Rightarrow> model_version p = cfg_model_version (loaded_pipeline_config st)
                  \<and> obj_id p < next_id st
      | _ \<Rightarrow> True)"

subsection \<open>Sample environments and states\<close>

definition demo_args :: cli_args where
  "demo_args = \<lparr>base_model_path = ''black-forest-labs/FLUX.1-dev'', clip_encoder_path = None\<rparr>"

text \<open>No library call raises; \<open>torch.seed()\<close> returns \<open>0x1234567890\<close>.\<close>

definition env_ok :: env where
  "env_ok =
     \<lparr>args = demo_args,
      ctor_raises = (\<lambda>_ _. None),
      delete_adapters_raises = (\<lambda>_ _ _. None),
      load_loras_raises = (\<lambda>_ _ _. None),
      torch_seed = (\<lambda>_. 78187493520),
      pipeline_call = (\<lambda>_ _ _. Inr (Img 1))\<rparr>"


definition env_call_fails :: env where
  "env_call_fails =
     env_ok\<lparr>pipeline_call := (\<lambda>_ _ _. Inl (OtherException ''CUDA out of memory''))\<rparr>"

definition env_load_fails :: env where
  "env_load_fails =
     env_ok\<lparr>load_loras_raises :=
       (\<lambda>_ _ ls. if ls = [] then None else Some (OtherException ''No such file''))\<rparr>"

text \<open>The files of \<open>sim_stage1\<close> are missing: the constructor raises for that version.\<close>

definition env_ctor_fails :: env where
  "env_ctor_fails =
     env_ok\<lparr>ctor_raises :=
       (\<lambda>_ ca. if ca_model_version ca = ''sim_stage1''
                then Some (OtherException ''No such file or directory'') else None)\<rparr>"

text \<open>The state in which \<open>env_ok\<close> leaves the process after line 260.\<close>

definition loaded_world :: world where
  "loaded_world =
     \<lparr>pipeline = PObj \<lparr>obj_id = 0, model_version = ''aes_stage2''\<rparr>,
      loaded_pipeline_config = requested ''aes_stage2'' False False,
      next_id = 1,
      trace =
        [DelPipeline PNone,
         Print ''loading model from ./models/InfiniteYou/infu_flux_v1.0/aes_stage2'',
         Print ''loading flux model from black-forest-labs/FLUX.1-dev'',
         Construct (ctor_args_for env_ok ''aes_stage2''),
         DeleteAdapters 0 [''realism'', ''anti_blur''],
         LoadLoras 0 []]\<rparr>"

text \<open>A click with the defaults of the form, seed 42 and the given model version.\<close>

definition sample_request :: "string \<Rightarrow> request" where
  "sample_request mv =
     \<lparr>rq_input_image = Some (Img 0), rq_control_image = None, rq_prompt = ''Portrait'',
      rq_seed = 42, rq_width = 864, rq_height = 1152, rq_guidance_scale = 3.5,
      rq_num_steps = 30, rq_infusenet_conditioning_scale = 1.0,
      rq_infusenet_guidance_start = 0.0, rq_infusenet_guidance_end = 1.0,
      rq_enable_realism = False, rq_enable_anti_blur = False, rq_model_version = mv\<rparr>"

text \<open>
  The state after \<open>loaded_world\<close> received a request for \<open>sim_stage1\<close> and the
  constructor raised: the name \<open>pipeline\<close> is deleted, the configuration names
  \<open>sim_stage1\<close>.
\<close>

definition broken_world :: world where
  "broken_world =
     \<lparr>pipeline = Unbound,
      loaded_pipeline_config = requested ''sim_stage1'' False False,
      next_id = 1,
      trace =
        trace loaded_world @
        [DelPipeline (PObj \<lparr>obj_id = 0, model_version = ''aes_stage2''\<rparr>),
         Print ''loading model from ./models/InfiniteYou/infu_flux_v1.0/sim_stage1'',
         Print ''loading flux model from black-forest-labs/FLUX.1-dev'',
         Construct
           \<lparr>ca_base_model_path = ''black-forest-labs/FLUX.1-dev'',
            ca_infu_model_path = ''./models/InfiniteYou/infu_flux_v1.0/sim_stage1'',
            ca_insightface_root_path = ''./models/InfiniteYou/supports/insightface'',
            ca_image_proj_num_tokens = 8,
            ca_infu_flux_version = ''v1.0'',
            ca_model_version = ''sim_stage1''\<rparr>]\<rparr>"

definition sample_widget :: image_output where
  "sample_widget = \<lparr>out_value = Some (Img 7), out_label = ''Generated image, seed = 5''\<rparr>"

section \<open>Properties\<close>

subsection \<open>The four ways through prepare_pipeline\<close>

lemma prepare_unbound:
  "pipeline st = Unbound \<Longrightarrow>
   prepare_pipeline e st mv r a = (Inl (NameError ''name 'pipeline' is not defined''), st)"
  by (simp add: prepare_pipeline_def)

lemma prepare_unchanged:
  "pipeline st = PObj p \<Longrightarrow> loaded_pipeline_config st = requested mv r a \<Longrightarrow>
   prepare_pipeline e st mv r a = (Inr (), st)"
  by (simp add: prepare_pipeline_def requested_def)

lemma prepare_reload:
  "pipeline st = PObj p \<Longrightarrow> loaded_pipeline_config st \<noteq> requested mv r a \<Longrightarrow>
   model_version p = mv \<Longrightarrow>
   prepare_pipeline e st mv r a =
     reload_adapters e (st\<lparr>loaded_pipeline_config := requested mv r a\<rparr>) p r a"
  by (cases "loaded_pipeline_config st") (auto simp add: prepare_pipeline_def requested_def)

lemma prepare_rebuild:
  "pipeline st = PNone \<or>
   (pipeline st = PObj p \<and> model_version p \<noteq> mv
      \<and> loaded_pipeline_config st \<noteq> requested mv r a) \<Longrightarrow>
   prepare_pipeline e st mv r a =
     (case rebuild e (st\<lparr>loaded_pipeline_config := requested mv r a\<rparr>) mv of
        (Inl x, st2) \<Rightarrow> (Inl x, st2)
      | (Inr q, st2) \<Rightarrow> reload_adapters e st2 q r a)"
  by (cases "loaded_pipeline_config st") (auto simp add: prepare_pipeline_def requested_def)

lemma prepare_cases:
  obtains (unbound) "pipeline st = Unbound"
  | (unchanged) p where "pipeline st = PObj p" "loaded_pipeline_config st = requested mv r a"
  | (reload) p where "pipeline st = PObj p" "loaded_pipeline_config st \<noteq> requested mv r a"
      "model_version p = mv"
  | (rebuild) "pipeline st = PNone \<or>
      (\<exists>p. pipeline st = PObj p \<and> model_version p \<noteq> mv
         \<and> loaded_pipeline_config st \<noteq> requested mv r a)"
  by (cases "pipeline st") auto

subsection \<open>What the two halves change\<close>

lemma reload_frame:
  "pipeline (snd (reload_adapters e st p r a)) = pipeline st"
  "loaded_pipeline_config (snd (reload_adapters e st p r a)) = loaded_pipeline_config st"
  "next_id (snd (reload_adapters e st p r a)) = next_id st"
  by (simp_all add: reload_adapters_def emit_def Let_def split: option.split)

lemma reload_trace:
  "trace (snd (reload_adapters e st p r a)) =
     trace st @ DeleteAdapters (obj_id p) [''realism'', ''anti_blur''] #
       (if delete_adapters_raises e (trace st) (obj_id p) [''realism'', ''anti_blur''] = None
        then [LoadLoras (obj_id p) (loras_for r a)] else [])"
  by (simp add: reload_adapters_def emit_def Let_def split: option.split)

lemma reload_returns:
  "fst (reload_adapters e st p r a) = Inr u \<Longrightarrow>
   trace (snd (reload_adapters e st p r a)) =
     trace st @ [DeleteAdapters (obj_id p) [''realism'', ''anti_blur''],
                 LoadLoras (obj_id p) (loras_for r a)]"
  by (auto simp add: reload_adapters_def emit_def Let_def split: option.splits)

lemma reload_raises_last:
  "fst (reload_adapters e st p r a) = Inl x \<Longrightarrow>
   last (trace (snd (reload_adapters e st p r a))) =
     DeleteAdapters (obj_id p) [''realism'', ''anti_blur''] \<or>
   last (trace (snd (reload_adapters e st p r a))) = LoadLoras (obj_id p) (loras_for r a)"
  by (auto simp add: reload_adapters_def emit_def Let_def split: option.splits)

lemma rebuild_frame:
  "loaded_pipeline_config (snd (rebuild e st mv)) = loaded_pipeline_config st"
  "trace (snd (rebuild e st mv)) =
     trace st @
       [DelPipeline (pipeline st),
        Print (''loading model from ./models/InfiniteYou/infu_flux_v1.0/'' @ mv),
        Print (''loading flux model from '' @ base_model_path (args e)),
        Construct (ctor_args_for e mv)]"
  by (simp_all add: rebuild_def emit_def Let_def split: option.split)

lemma rebuild_raises:
  "fst (rebuild e st mv) = Inl x \<Longrightarrow>
   pipeline (snd (rebuild e st mv)) = Unbound \<and> next_id (snd (rebuild e st mv)) = next_id st"
  by (simp add: rebuild_def emit_def Let_def split: option.splits)

lemma rebuild_returns:
  "fst (rebuild e st mv) = Inr q \<Longrightarrow>
   q = \<lparr>obj_id = next_id st, model_version = mv\<rparr> \<and>
   pipeline (snd (rebuild e st mv)) = PObj q \<and>
   next_id (snd (rebuild e st mv)) = Suc (next_id st)"
  by (auto simp add: rebuild_def emit_def Let_def split: option.splits)

lemma emitted_append: "trace st' = trace st @ evs \<Longrightarrow> emitted st st' = evs"
  by (simp add: emitted_def)

lemma startup_env_ok: "startup env_ok = (Inr (), loaded_world)"
  by (simp add: startup_def prepare_pipeline_def rebuild_def reload_adapters_def emit_def
      Let_def initial_world_def env_ok_def demo_args_def loaded_world_def requested_def
      ctor_args_for_def loras_for_def DEFAULT_VERSION_def STAGE_2_def
      ENABLE_REALISM_DEFAULT_def ENABLE_ANTI_BLUR_DEFAULT_def)

lemma prepare_rebuild_raises:
  assumes "pipeline st = PNone \<or>
      (\<exists>p. pipeline st = PObj p \<and> model_version p \<noteq> mv
         \<and> loaded_pipeline_config st \<noteq> requested mv r a)"
    and "fst (rebuild e (st\<lparr>loaded_pipeline_config := requested mv r a\<rparr>) mv) = Inl x"
  shows "prepare_pipeline e st mv r a =
     (Inl x, snd (rebuild e (st\<lparr>loaded_pipeline_config := requested mv r a\<rparr>) mv))"
proof -
  from assms(1) have "prepare_pipeline e st mv r a =
     (case rebuild e (st\<lparr>loaded_pipeline_config := requested mv r a\<rparr>) mv of
        (Inl x, st2) \<Rightarrow> (Inl x, st2)
      | (Inr q, st2) \<Rightarrow> reload_adapters e st2 q r a)"
    using prepare_rebuild [of st _ mv r a e] by blast
  then show ?thesis using assms(2)
    by (cases "rebuild e (st\<lparr>loaded_pipeline_config := requested mv r a\<rparr>) mv") simp
qed

lemma prepare_rebuild_returns:
  assumes "pipeline st = PNone \<or>
      (\<exists>p. pipeline st = PObj p \<and> model_version p \<noteq> mv
         \<and> loaded_pipeline_config st \<noteq> requested mv r a)"
    and "fst (rebuild e (st\<lparr>loaded_pipeline_config := requested mv r a\<rparr>) mv) = Inr q"
  shows "prepare_pipeline e st mv r a =
     reload_adapters e (snd (rebuild e (st\<lparr>loaded_pipeline_config := requested mv r a\<rparr>) mv))
       q r a"
proof -
  from assms(1) have "prepare_pipeline e st mv r a =
     (case rebuild e (st\<lparr>loaded_pipeline_config := requested mv r a\<rparr>) mv of
        (Inl x, st2) \<Rightarrow> (Inl x, st2)
      | (Inr q, st2) \<Rightarrow> reload_adapters e st2 q r a)"
    using prepare_rebuild [of st _ mv r a e] by blast
  then show ?thesis using assms(2)
    by (cases "rebuild e (st\<lparr>loaded_pipeline_config := requested mv r a\<rparr>) mv") simp
qed

lemma prepare_second_noop:
  "snd (prepare_pipeline e (snd (prepare_pipeline e st mv r a)) mv r a) =
   snd (prepare_pipeline e st mv r a)"
proof (cases rule: prepare_cases [where st=st and mv=mv and r=r and a=a])
  case unbound
  then show ?thesis by (simp add: prepare_unbound)
next
  case (unchanged p)
  then show ?thesis by (simp add: prepare_unchanged)
next
  case (reload p)
  let ?st1 = "snd (reload_adapters e (st\<lparr>loaded_pipeline_config := requested mv r a\<rparr>) p r a)"
  have "pipeline ?st1 = PObj p" "loaded_pipeline_config ?st1 = requested mv r a"
    using reload by (simp_all add: reload_frame)
  then have "prepare_pipeline e ?st1 mv r a = (Inr (), ?st1)"
    by (rule prepare_unchanged)
  then show ?thesis using reload by (simp add: prepare_reload)
next
  case rebuild
  let ?st2 = "snd (rebuild e (st\<lparr>loaded_pipeline_config := requested mv r a\<rparr>) mv)"
  show ?thesis
  proof (cases "fst (rebuild e (st\<lparr>loaded_pipeline_config := requested mv r a\<rparr>) mv)")
    case (Inl x)
    then have "pipeline ?st2 = Unbound" by (simp add: rebuild_raises)
    then show ?thesis
      by (simp add: prepare_rebuild_raises [OF rebuild Inl] prepare_unbound)
  next
    case (Inr q)
    let ?st3 = "snd (reload_adapters e ?st2 q r a)"
    have "pipeline ?st2 = PObj q" using Inr by (simp add: rebuild_returns)
    then have "pipeline ?st3 = PObj q" by (simp add: reload_frame)
    moreover have "loaded_pipeline_config ?st3 = requested mv r a"
      by (simp add: reload_frame rebuild_frame)
    ultimately have "prepare_pipeline e ?st3 mv r a = (Inr (), ?st3)"
      by (rule prepare_unchanged)
    then show ?thesis by (simp add: prepare_rebuild_returns [OF rebuild Inr])
  qed
qed

text \<open>A call that returns leaves an object bound and the requested configuration recorded.\<close>

lemma prepare_returns:
  assumes "prepare_pipeline e st mv r a = (Inr u, st1)"
  shows "(\<exists>p. pipeline st1 = PObj p) \<and> loaded_pipeline_config st1 = requested mv r a"
proof (cases rule: prepare_cases [where st=st and mv=mv and r=r and a=a])
  case unbound
  then show ?thesis using assms by (simp add: prepare_unbound)
next
  case (unchanged p)
  then show ?thesis using assms by (simp add: prepare_unchanged)
next
  case (reload p)
  then have "st1 = snd (reload_adapters e (st\<lparr>loaded_pipeline_config := requested mv r a\<rparr>) p r a)"
    using assms by (simp add: prepare_reload)
  then show ?thesis using reload by (simp add: reload_frame)
next
  case rebuild
  let ?st2 = "snd (rebuild e (st\<lparr>loaded_pipeline_config := requested mv r a\<rparr>) mv)"
  show ?thesis
  proof (cases "fst (rebuild e (st\<lparr>loaded_pipeline_config := requested mv r a\<rparr>) mv)")
    case (Inl x)
    then show ?thesis using assms by (simp add: prepare_rebuild_raises [OF rebuild Inl])
  next
    case (Inr q)
    have "snd (prepare_pipeline e st mv r a) = snd (reload_adapters e ?st2 q r a)"
      by (simp add: prepare_rebuild_returns [OF rebuild Inr])
    then have "st1 = snd (reload_adapters e ?st2 q r a)"
      using assms by simp
    moreover have "pipeline ?st2 = PObj q"
      using Inr by (simp add: rebuild_returns)
    ultimately show ?thesis by (simp add: reload_frame rebuild_frame)
  qed
qed

text \<open>One call constructs at most once and loads adapters at most once.\<close>

lemma prepare_work_once:
  "length (filter is_Construct (emitted st (snd (prepare_pipeline e st mv r a)))) \<le> 1 \<and>
   length (filter is_LoadLoras (emitted st (snd (prepare_pipeline e st mv r a)))) \<le> 1"
proof (cases rule: prepare_cases [where st=st and mv=mv and r=r and a=a])
  case unbound
  then show ?thesis by (simp add: prepare_unbound emitted_def)
next
  case (unchanged p)
  then show ?thesis by (simp add: prepare_unchanged emitted_def)
next
  case (reload p)
  then show ?thesis by (simp add: prepare_reload emitted_def reload_trace)
next
  case rebuild
  show ?thesis
  proof (cases "fst (rebuild e (st\<lparr>loaded_pipeline_config := requested mv r a\<rparr>) mv)")
    case (Inl x)
    show ?thesis
      by (simp add: prepare_rebuild_raises [OF rebuild Inl] emitted_def rebuild_frame)
  next
    case (Inr q)
    show ?thesis
      by (simp add: prepare_rebuild_returns [OF rebuild Inr] emitted_def rebuild_frame
          reload_trace)
  qed
qed

subsection \<open>Claims about prepare_pipeline\<close>

text \<open>
  Claim C3. Calling \<open>prepare_pipeline\<close> twice in a row with the same triple: the second
  call leaves the globals and the trace as the first call left them; when the first
  call returned, the second returns as well; and over both calls together the
  constructor runs at most once and \<open>load_loras\<close> at most once.
\<close>

theorem prepare_pipeline_idempotent:
  assumes "prepare_pipeline e st mv r a = (res, st1)"
  shows "snd (prepare_pipeline e st1 mv r a) = st1 \<and>
         (res = Inr () \<longrightarrow> prepare_pipeline e st1 mv r a = (Inr (), st1)) \<and>
         length (filter is_Construct (emitted st (snd (prepare_pipeline e st1 mv r a)))) \<le> 1 \<and>
         length (filter is_LoadLoras (emitted st (snd (prepare_pipeline e st1 mv r a)))) \<le> 1"
proof -
  have st1: "st1 = snd (prepare_pipeline e st mv r a)" using assms by simp
  have noop: "snd (prepare_pipeline e st1 mv r a) = st1"
    unfolding st1 by (rule prepare_second_noop)
  have ret: "prepare_pipeline e st1 mv r a = (Inr (), st1)" if "res = Inr ()"
  proof -
    from that assms obtain p where "pipeline st1 = PObj p"
      and "loaded_pipeline_config st1 = requested mv r a"
      using prepare_returns [of e st mv r a "()" st1] by auto
    then show ?thesis by (rule prepare_unchanged)
  qed
  show ?thesis
    using noop ret prepare_work_once [of st e mv r a] by (simp add: st1)
qed

theorem prepare_pipeline_idempotent_witness:
  "prepare_pipeline env_ok loaded_world ''aes_stage2'' True False =
     (Inr (), snd (prepare_pipeline env_ok loaded_world ''aes_stage2'' True False)) \<and>
   prepare_pipeline env_ok (snd (prepare_pipeline env_ok loaded_world ''aes_stage2'' True False))
      ''aes_stage2'' True False =
     (Inr (), snd (prepare_pipeline env_ok loaded_world ''aes_stage2'' True False)) \<and>
   emitted loaded_world (snd (prepare_pipeline env_ok
        (snd (prepare_pipeline env_ok loaded_world ''aes_stage2'' True False))
        ''aes_stage2'' True False)) =
     [DeleteAdapters 0 [''realism'', ''anti_blur''],
      LoadLoras 0 (loras_for True False)]"
proof -
  have first: "prepare_pipeline env_ok loaded_world ''aes_stage2'' True False =
     (Inr (), snd (prepare_pipeline env_ok loaded_world ''aes_stage2'' True False))"
    by (simp add: prepare_pipeline_def reload_adapters_def emit_def Let_def env_ok_def
        loaded_world_def requested_def)
  have tr: "emitted loaded_world (snd (prepare_pipeline env_ok loaded_world ''aes_stage2'' True False)) =
     [DeleteAdapters 0 [''realism'', ''anti_blur''], LoadLoras 0 (loras_for True False)]"
    by (simp add: prepare_pipeline_def reload_adapters_def emit_def Let_def env_ok_def
        loaded_world_def requested_def emitted_def)
  from prepare_pipeline_idempotent [OF first] first tr show ?thesis by simp
qed

lemma loras_for_names:
  "map (\<lambda>(path, name, w). (name, w)) (loras_for r a) =
     (if r then [(''realism'', 1)] else []) @ (if a then [(''anti_blur'', 1)] else [])"
  by (simp add: loras_for_def)

text \<open>
  Claim C4. A call that keeps the model version of the loaded configuration and
  changes a LoRA toggle, in a state where the pipeline object was built for that
  version: the global stays bound to the same object, no object is constructed, and
  what the call does is \<open>delete_adapters\<close> on the two optional names followed, unless
  that raised, by \<open>load_loras\<close> with exactly the enabled adapters, each at weight 1.
\<close>

theorem lora_toggle_keeps_pipeline:
  assumes "pipeline st = PObj p"
    and "model_version p = cfg_model_version (loaded_pipeline_config st)"
    and "mv = cfg_model_version (loaded_pipeline_config st)"
    and "(r, a) \<noteq> (cfg_enable_realism (loaded_pipeline_config st),
                   cfg_enable_anti_blur (loaded_pipeline_config st))"
    and "prepare_pipeline e st mv r a = (res, st1)"
  shows "pipeline st1 = PObj p \<and> next_id st1 = next_id st \<and>
         filter is_Construct (emitted st st1) = [] \<and>
         emitted st st1 =
           DeleteAdapters (obj_id p) [''realism'', ''anti_blur''] #
             (if delete_adapters_raises e (trace st) (obj_id p) [''realism'', ''anti_blur''] = None
              then [LoadLoras (obj_id p) (loras_for r a)] else []) \<and>
         map (\<lambda>(path, name, w). (name, w)) (loras_for r a) =
           (if r then [(''realism'', 1)] else []) @ (if a then [(''anti_blur'', 1)] else [])"
proof -
  have ne: "loaded_pipeline_config st \<noteq> requested mv r a"
    using assms(4) by (auto simp add: requested_def)
  have mv: "model_version p = mv" using assms(2,3) by simp
  let ?st0 = "st\<lparr>loaded_pipeline_config := requested mv r a\<rparr>"
  have "prepare_pipeline e st mv r a = reload_adapters e ?st0 p r a"
    using assms(1) ne mv by (rule prepare_reload)
  moreover have "st1 = snd (prepare_pipeline e st mv r a)"
    using assms(5) by simp
  ultimately have st1: "st1 = snd (reload_adapters e ?st0 p r a)"
    by simp
  have "pipeline st1 = PObj p" "next_id st1 = next_id st"
    using assms(1) by (simp_all add: st1 reload_frame)
  moreover have em: "emitted st st1 =
      DeleteAdapters (obj_id p) [''realism'', ''anti_blur''] #
        (if delete_adapters_raises e (trace st) (obj_id p) [''realism'', ''anti_blur''] = None
         then [LoadLoras (obj_id p) (loras_for r a)] else [])"
    by (rule emitted_append) (simp add: st1 reload_trace)
  moreover have "filter is_Construct (emitted st st1) = []"
    by (simp add: em)
  moreover note loras_for_names [of r a]
  ultimately show ?thesis by blast
qed

theorem lora_toggle_keeps_pipeline_witness:
  "pipeline (snd (prepare_pipeline env_ok loaded_world ''aes_stage2'' True False)) =
     PObj \<lparr>obj_id = 0, model_version = ''aes_stage2''\<rparr> \<and>
   emitted loaded_world (snd (prepare_pipeline env_ok loaded_world ''aes_stage2'' True False)) =
     [DeleteAdapters 0 [''realism'', ''anti_blur''],
      LoadLoras 0
        [(''./models/InfiniteYou/supports/optional_loras/flux_realism_lora.safetensors'',
          ''realism'', 1)]]"
proof -
  have h1: "pipeline loaded_world = PObj \<lparr>obj_id = 0, model_version = ''aes_stage2''\<rparr>"
    by (simp add: loaded_world_def)
  have h2: "model_version \<lparr>obj_id = 0, model_version = ''aes_stage2''\<rparr> =
      cfg_model_version (loaded_pipeline_config loaded_world)"
    by (simp add: loaded_world_def requested_def)
  have h3: "''aes_stage2'' = cfg_model_version (loaded_pipeline_config loaded_world)"
    by (simp add: loaded_world_def requested_def)
  have h4: "(True, False) \<noteq> (cfg_enable_realism (loaded_pipeline_config loaded_world),
      cfg_enable_anti_blur (loaded_pipeline_config loaded_world))"
    by (simp add: loaded_world_def requested_def)
  have h5: "prepare_pipeline env_ok loaded_world ''aes_stage2'' True False =
      (fst (prepare_pipeline env_ok loaded_world ''aes_stage2'' True False),
       snd (prepare_pipeline env_ok loaded_world ''aes_stage2'' True False))"
    by simp
  from lora_toggle_keeps_pipeline [OF h1 h2 h3 h4 h5]
  show ?thesis by (simp add: env_ok_def loras_for_def)
qed

text \<open>
  What a call with a model version other than the loaded one does while an object
  built for the loaded version is bound.
\<close>

lemma version_switch_events:
  assumes "pipeline st = PObj p"
    and "model_version p = cfg_model_version (loaded_pipeline_config st)"
    and "obj_id p < next_id st"
    and "mv \<noteq> cfg_model_version (loaded_pipeline_config st)"
    and "prepare_pipeline e st mv r a = (res, st1)"
  shows "pipeline st1 \<noteq> PObj p \<and>
         (pipeline st1 = Unbound \<or>
          pipeline st1 = PObj \<lparr>obj_id = next_id st, model_version = mv\<rparr>) \<and>
         take 4 (emitted st st1) =
           [DelPipeline (PObj p),
            Print (''loading model from ./models/InfiniteYou/infu_flux_v1.0/'' @ mv),
            Print (''loading flux model from '' @ base_model_path (args e)),
            Construct (ctor_args_for e mv)] \<and>
         (res = Inr () \<longrightarrow>
            pipeline st1 = PObj \<lparr>obj_id = next_id st, model_version = mv\<rparr> \<and>
            loaded_pipeline_config st1 = requested mv r a \<and>
            drop 4 (emitted st st1) =
              [DeleteAdapters (next_id st) [''realism'', ''anti_blur''],
               LoadLoras (next_id st) (loras_for r a)]) \<and>
         map (\<lambda>(path, name, w). (name, w)) (loras_for r a) =
           (if r then [(''realism'', 1)] else []) @ (if a then [(''anti_blur'', 1)] else [])"
proof -
  have ne: "loaded_pipeline_config st \<noteq> requested mv r a"
    using assms(4) by (auto simp add: requested_def)
  have mv: "model_version p \<noteq> mv" using assms(2,4) by simp
  let ?st0 = "st\<lparr>loaded_pipeline_config := requested mv r a\<rparr>"
  let ?st2 = "snd (rebuild e ?st0 mv)"
  have cond: "pipeline st = PNone \<or>
      (\<exists>p. pipeline st = PObj p \<and> model_version p \<noteq> mv
         \<and> loaded_pipeline_config st \<noteq> requested mv r a)"
    using assms(1) ne mv by simp
  have tr2: "trace ?st2 = trace st @
       [DelPipeline (PObj p),
        Print (''loading model from ./models/InfiniteYou/infu_flux_v1.0/'' @ mv),
        Print (''loading flux model from '' @ base_model_path (args e)),
        Construct (ctor_args_for e mv)]"
    using assms(1) by (simp add: rebuild_frame)
  show ?thesis
  proof (cases "fst (rebuild e ?st0 mv)")
    case (Inl x)
    have "prepare_pipeline e st mv r a = (Inl x, ?st2)"
      by (rule prepare_rebuild_raises [OF cond Inl])
    moreover have "st1 = snd (prepare_pipeline e st mv r a)"
      "res = fst (prepare_pipeline e st mv r a)"
      using assms(5) by simp_all
    ultimately have st1: "st1 = ?st2" and res: "res = Inl x" by simp_all
    have "pipeline st1 = Unbound" using Inl by (simp add: st1 rebuild_raises)
    moreover have "emitted st st1 =
       [DelPipeline (PObj p),
        Print (''loading model from ./models/InfiniteYou/infu_flux_v1.0/'' @ mv),
        Print (''loading flux model from '' @ base_model_path (args e)),
        Construct (ctor_args_for e mv)]"
      by (rule emitted_append) (simp add: st1 tr2)
    moreover have "take 4 (emitted st st1) =
       [DelPipeline (PObj p),
        Print (''loading model from ./models/InfiniteYou/infu_flux_v1.0/'' @ mv),
        Print (''loading flux model from '' @ base_model_path (args e)),
        Construct (ctor_args_for e mv)]"
      by (simp add: calculation(2))
    moreover have "pipeline st1 \<noteq> PObj p" by (simp add: calculation(1))
    moreover have "res \<noteq> Inr ()" by (simp add: res)
    moreover note loras_for_names [of r a]
    ultimately show ?thesis by blast
  next
    case (Inr q)
    have q: "q = \<lparr>obj_id = next_id st, model_version = mv\<rparr>" "pipeline ?st2 = PObj q"
      using rebuild_returns [OF Inr] by simp_all
    have "prepare_pipeline e st mv r a = reload_adapters e ?st2 q r a"
      by (rule prepare_rebuild_returns [OF cond Inr])
    moreover have "st1 = snd (prepare_pipeline e st mv r a)"
      "res = fst (prepare_pipeline e st mv r a)"
      using assms(5) by simp_all
    ultimately have st1: "st1 = snd (reload_adapters e ?st2 q r a)"
      and res: "res = fst (reload_adapters e ?st2 q r a)"
      by simp_all
    have pl: "pipeline st1 = PObj \<lparr>obj_id = next_id st, model_version = mv\<rparr>"
      using q by (simp add: st1 reload_frame)
    have cfg: "loaded_pipeline_config st1 = requested mv r a"
      by (simp add: st1 reload_frame rebuild_frame)
    have "trace st1 = trace st @
       [DelPipeline (PObj p),
        Print (''loading model from ./models/InfiniteYou/infu_flux_v1.0/'' @ mv),
        Print (''loading flux model from '' @ base_model_path (args e)),
        Construct (ctor_args_for e mv)] @
        DeleteAdapters (next_id st) [''realism'', ''anti_blur''] #
          (if delete_adapters_raises e (trace ?st2) (next_id st) [''realism'', ''anti_blur''] = None
           then [LoadLoras (next_id st) (loras_for r a)] else [])"
      unfolding st1 reload_trace tr2 by (simp add: q)
    then have em: "emitted st st1 =
       [DelPipeline (PObj p),
        Print (''loading model from ./models/InfiniteYou/infu_flux_v1.0/'' @ mv),
        Print (''loading flux model from '' @ base_model_path (args e)),
        Construct (ctor_args_for e mv)] @
        DeleteAdapters (next_id st) [''realism'', ''anti_blur''] #
          (if delete_adapters_raises e (trace ?st2) (next_id st) [''realism'', ''anti_blur''] = None
           then [LoadLoras (next_id st) (loras_for r a)] else [])"
      by (rule emitted_append)
    have ret: "drop 4 (emitted st st1) =
              [DeleteAdapters (next_id st) [''realism'', ''anti_blur''],
               LoadLoras (next_id st) (loras_for r a)]" if "res = Inr ()"
    proof -
      from that have "fst (reload_adapters e ?st2 q r a) = Inr ()" by (simp add: res)
      from reload_returns [OF this]
      have "trace st1 = trace ?st2 @
          [DeleteAdapters (obj_id q) [''realism'', ''anti_blur''],
           LoadLoras (obj_id q) (loras_for r a)]"
        by (simp add: st1)
      then have "emitted st st1 =
         [DelPipeline (PObj p),
          Print (''loading model from ./models/InfiniteYou/infu_flux_v1.0/'' @ mv),
          Print (''loading flux model from '' @ base_model_path (args e)),
          Construct (ctor_args_for e mv)] @
          [DeleteAdapters (next_id st) [''realism'', ''anti_blur''],
           LoadLoras (next_id st) (loras_for r a)]"
        by (intro emitted_append) (simp add: tr2 q)
      then show ?thesis by simp
    qed
    have "pipeline st1 \<noteq> PObj p" using pl assms(3) by auto
    moreover have "take 4 (emitted st st1) =
       [DelPipeline (PObj p),
        Print (''loading model from ./models/InfiniteYou/infu_flux_v1.0/'' @ mv),
        Print (''loading flux model from '' @ base_model_path (args e)),
        Construct (ctor_args_for e mv)]"
      by (simp add: em)
    moreover note pl cfg ret loras_for_names [of r a]
    ultimately show ?thesis by blast
  qed
qed

text \<open>
  The same with the arguments of the constructor written out: the adapter directory
  and the version tag are those of the requested version, the base model is the one
  of the command line, the face-analysis directory and the token count are fixed.
\<close>

lemma version_switch_rebuilds:
  assumes "pipeline st = PObj p"
    and "model_version p = cfg_model_version (loaded_pipeline_config st)"
    and "obj_id p < next_id st"
    and "mv \<noteq> cfg_model_version (loaded_pipeline_config st)"
    and "prepare_pipeline e st mv r a = (res, st1)"
  shows "pipeline st1 \<noteq> PObj p \<and>
         (pipeline st1 = Unbound \<or>
          pipeline st1 = PObj \<lparr>obj_id = next_id st, model_version = mv\<rparr>) \<and>
         take 4 (emitted st st1) =
           [DelPipeline (PObj p),
            Print (''loading model from ./models/InfiniteYou/infu_flux_v1.0/'' @ mv),
            Print (''loading flux model from '' @ base_model_path (args e)),
            Construct
              \<lparr>ca_base_model_path = base_model_path (args e),
               ca_infu_model_path = ''./models/InfiniteYou/infu_flux_v1.0/'' @ mv,
               ca_insightface_root_path = ''./models/InfiniteYou/supports/insightface'',
               ca_image_proj_num_tokens = 8,
               ca_infu_flux_version = ''v1.0'',
               ca_model_version = mv\<rparr>] \<and>
         (res = Inr () \<longrightarrow>
            pipeline st1 = PObj \<lparr>obj_id = next_id st, model_version = mv\<rparr> \<and>
            loaded_pipeline_config st1 = requested mv r a \<and>
            drop 4 (emitted st st1) =
              [DeleteAdapters (next_id st) [''realism'', ''anti_blur''],
               LoadLoras (next_id st) (loras_for r a)]) \<and>
         map (\<lambda>(path, name, w). (name, w)) (loras_for r a) =
           (if r then [(''realism'', 1)] else []) @ (if a then [(''anti_blur'', 1)] else [])"
  by (rule version_switch_events [OF assms, unfolded ctor_args_for_def])

lemma version_switch_sample_run:
  "pipeline (snd (prepare_pipeline env_ok loaded_world ''sim_stage1'' False True)) =
     PObj \<lparr>obj_id = 1, model_version = ''sim_stage1''\<rparr> \<and>
   loaded_pipeline_config (snd (prepare_pipeline env_ok loaded_world ''sim_stage1'' False True)) =
     requested ''sim_stage1'' False True \<and>
   emitted loaded_world (snd (prepare_pipeline env_ok loaded_world ''sim_stage1'' False True)) =
     [DelPipeline (PObj \<lparr>obj_id = 0, model_version = ''aes_stage2''\<rparr>),
      Print ''loading model from ./models/InfiniteYou/infu_flux_v1.0/sim_stage1'',
      Print ''loading flux model from black-forest-labs/FLUX.1-dev'',
      Construct
        \<lparr>ca_base_model_path = ''black-forest-labs/FLUX.1-dev'',
         ca_infu_model_path = ''./models/InfiniteYou/infu_flux_v1.0/sim_stage1'',
         ca_insightface_root_path = ''./models/InfiniteYou/supports/insightface'',
         ca_image_proj_num_tokens = 8,
         ca_infu_flux_version = ''v1.0'',
         ca_model_version = ''sim_stage1''\<rparr>,
      DeleteAdapters 1 [''realism'', ''anti_blur''],
      LoadLoras 1
        [(''./models/InfiniteYou/supports/optional_loras/flux_anti_blur_lora.safetensors'',
          ''anti_blur'', 1)]]"
proof -
  have h1: "pipeline loaded_world = PObj \<lparr>obj_id = 0, model_version = ''aes_stage2''\<rparr>"
    by (simp add: loaded_world_def)
  have h2: "model_version \<lparr>obj_id = 0, model_version = ''aes_stage2''\<rparr> =
      cfg_model_version (loaded_pipeline_config loaded_world)"
    by (simp add: loaded_world_def requested_def)
  have h3: "obj_id \<lparr>obj_id = 0, model_version = ''aes_stage2''\<rparr> < next_id loaded_world"
    by (simp add: loaded_world_def)
  have h4: "''sim_stage1'' \<noteq> cfg_model_version (loaded_pipeline_config loaded_world)"
    by (simp add: loaded_world_def requested_def)
  have h5: "prepare_pipeline env_ok loaded_world ''sim_stage1'' False True =
      (Inr (), snd (prepare_pipeline env_ok loaded_world ''sim_stage1'' False True))"
    by (simp add: prepare_pipeline_def rebuild_def reload_adapters_def emit_def Let_def
        env_ok_def loaded_world_def requested_def)
  have nid: "next_id loaded_world = 1" by (simp add: loaded_world_def)
  have ba: "base_model_path (args env_ok) = ''black-forest-labs/FLUX.1-dev''"
    by (simp add: env_ok_def demo_args_def)
  from version_switch_rebuilds [OF h1 h2 h3 h4 h5]
  have *: "pipeline (snd (prepare_pipeline env_ok loaded_world ''sim_stage1'' False True)) =
       PObj \<lparr>obj_id = 1, model_version = ''sim_stage1''\<rparr>"
    "loaded_pipeline_config (snd (prepare_pipeline env_ok loaded_world ''sim_stage1'' False True)) =
       requested ''sim_stage1'' False True"
    "take 4 (emitted loaded_world (snd (prepare_pipeline env_ok loaded_world ''sim_stage1'' False True))) =
       [DelPipeline (PObj \<lparr>obj_id = 0, model_version = ''aes_stage2''\<rparr>),
        Print ''loading model from ./models/InfiniteYou/infu_flux_v1.0/sim_stage1'',
        Print ''loading flux model from black-forest-labs/FLUX.1-dev'',
        Construct
        \<lparr>ca_base_model_path = ''black-forest-labs/FLUX.1-dev'',
         ca_infu_model_path = ''./models/InfiniteYou/infu_flux_v1.0/sim_stage1'',
         ca_insightface_root_path = ''./models/InfiniteYou/supports/insightface'',
         ca_image_proj_num_tokens = 8,
         ca_infu_flux_version = ''v1.0'',
         ca_model_version = ''sim_stage1''\<rparr>]"
    "drop 4 (emitted loaded_world (snd (prepare_pipeline env_ok loaded_world ''sim_stage1'' False True))) =
       [DeleteAdapters 1 [''realism'', ''anti_blur''],
        LoadLoras 1
          [(''./models/InfiniteYou/supports/optional_loras/flux_anti_blur_lora.safetensors'',
            ''anti_blur'', 1)]]"
    by (simp_all add: nid ba loras_for_def)
  have "emitted loaded_world (snd (prepare_pipeline env_ok loaded_world ''sim_stage1'' False True)) =
      take 4 (emitted loaded_world (snd (prepare_pipeline env_ok loaded_world ''sim_stage1'' False True))) @
      drop 4 (emitted loaded_world (snd (prepare_pipeline env_ok loaded_world ''sim_stage1'' False True)))"
    by simp
  then show ?thesis unfolding *(3,4) using *(1,2) by simp
qed

text \<open>A run in which the build for \<open>sim_stage1\<close> fails.\<close>

lemma startup_env_ctor_fails: "startup env_ctor_fails = (Inr (), loaded_world)"
  by (simp add: startup_def prepare_pipeline_def rebuild_def reload_adapters_def emit_def
      Let_def initial_world_def env_ok_def env_ctor_fails_def demo_args_def loaded_world_def
      requested_def ctor_args_for_def loras_for_def DEFAULT_VERSION_def STAGE_2_def
      ENABLE_REALISM_DEFAULT_def ENABLE_ANTI_BLUR_DEFAULT_def)

lemma failed_build_leaves_broken_world:
  "generate_image_request env_ctor_fails loaded_world (sample_request ''sim_stage1'') =
     (Inl (OtherException ''No such file or directory''), broken_world)"
  by (simp add: generate_image_request_def sample_request_def generate_image_def
      prepare_pipeline_def rebuild_def emit_def Let_def env_ok_def env_ctor_fails_def
      demo_args_def loaded_world_def broken_world_def requested_def ctor_args_for_def)

lemma request_in_broken_world:
  "generate_image_request env_ctor_fails broken_world (sample_request ''aes_stage2'') =
     (Inl (NameError ''name 'pipeline' is not defined''), broken_world)"
  by (simp add: generate_image_request_def sample_request_def generate_image_def
      prepare_pipeline_def broken_world_def)

text \<open>
  Claim C5. A version change after a failed build. The process starts with
  \<open>aes_stage2\<close>. A request for \<open>sim_stage1\<close> reaches line 65, which deletes the global
  name, and the constructor raises, so the name stays deleted while the
  configuration names \<open>sim_stage1\<close>. The next request asks for \<open>aes_stage2\<close>, a
  version other than the recorded one: \<open>prepare_pipeline\<close> raises NameError at line
  53, the constructor is not called, and no pipeline is bound afterwards.
\<close>

theorem version_switch_after_failed_build:
  "process_run env_ctor_fails [sample_request ''sim_stage1'', sample_request ''aes_stage2''] =
     Inr ([Inl (OtherException ''No such file or directory''),
           Inl (NameError ''name 'pipeline' is not defined'')],
          broken_world) \<and>
   cfg_model_version (loaded_pipeline_config broken_world) = ''sim_stage1'' \<and>
   prepare_pipeline env_ctor_fails broken_world ''aes_stage2'' False False =
     (Inl (NameError ''name 'pipeline' is not defined''), broken_world) \<and>
   filter is_Construct (emitted broken_world
     (snd (prepare_pipeline env_ctor_fails broken_world ''aes_stage2'' False False))) = [] \<and>
   pipeline (snd (prepare_pipeline env_ctor_fails broken_world ''aes_stage2'' False False)) =
     Unbound"
proof -
  have run: "process_run env_ctor_fails
      [sample_request ''sim_stage1'', sample_request ''aes_stage2''] =
     Inr ([Inl (OtherException ''No such file or directory''),
           Inl (NameError ''name 'pipeline' is not defined'')],
          broken_world)"
    by (simp add: process_run_def startup_env_ctor_fails failed_build_leaves_broken_world
        request_in_broken_world)
  have prep: "prepare_pipeline env_ctor_fails broken_world ''aes_stage2'' False False =
     (Inl (NameError ''name 'pipeline' is not defined''), broken_world)"
    by (simp add: prepare_pipeline_def broken_world_def)
  have cfg: "cfg_model_version (loaded_pipeline_config broken_world) = ''sim_stage1''"
    by (simp add: broken_world_def requested_def)
  have pl: "pipeline broken_world = Unbound" by (simp add: broken_world_def)
  show ?thesis
    unfolding prep using run cfg pl by (simp add: emitted_def)
qed

lemma prepare_raises_config:
  assumes "pipeline st \<noteq> Unbound" and "prepare_pipeline e st mv r a = (Inl x, st1)"
  shows "loaded_pipeline_config st1 = requested mv r a \<and>
         (pipeline st1 = Unbound \<and> last (trace st1) = Construct (ctor_args_for e mv) \<or>
          (\<exists>p. pipeline st1 = PObj p \<and> model_version p = mv \<and>
               (last (trace st1) = DeleteAdapters (obj_id p) [''realism'', ''anti_blur''] \<or>
                last (trace st1) = LoadLoras (obj_id p) (loras_for r a))))"
proof -
  have s: "st1 = snd (prepare_pipeline e st mv r a)" "fst (prepare_pipeline e st mv r a) = Inl x"
    using assms(2) by simp_all
  show ?thesis
  proof (cases rule: prepare_cases [where st=st and mv=mv and r=r and a=a])
    case unbound
    then show ?thesis using assms(1) by simp
  next
    case (unchanged p)
    then show ?thesis using s by (simp add: prepare_unchanged)
  next
    case (reload p)
    let ?st0 = "st\<lparr>loaded_pipeline_config := requested mv r a\<rparr>"
    have eq: "prepare_pipeline e st mv r a = reload_adapters e ?st0 p r a"
      using reload by (rule prepare_reload)
    have "fst (reload_adapters e ?st0 p r a) = Inl x" using s eq by simp
    from reload_raises_last [OF this]
    have "last (trace st1) = DeleteAdapters (obj_id p) [''realism'', ''anti_blur''] \<or>
          last (trace st1) = LoadLoras (obj_id p) (loras_for r a)"
      using s eq by simp
    moreover have "pipeline st1 = PObj p" "loaded_pipeline_config st1 = requested mv r a"
      using s eq reload by (simp_all add: reload_frame)
    ultimately show ?thesis using reload(3) by blast
  next
    case rebuild
    let ?st0 = "st\<lparr>loaded_pipeline_config := requested mv r a\<rparr>"
    let ?st2 = "snd (rebuild e ?st0 mv)"
    show ?thesis
    proof (cases "fst (rebuild e ?st0 mv)")
      case (Inl y)
      have "prepare_pipeline e st mv r a = (Inl y, ?st2)"
        by (rule prepare_rebuild_raises [OF rebuild Inl])
      then have st1: "st1 = ?st2" using s by simp
      have "pipeline st1 = Unbound" using Inl by (simp add: st1 rebuild_raises)
      moreover have "last (trace st1) = Construct (ctor_args_for e mv)"
        by (simp add: st1 rebuild_frame)
      moreover have "loaded_pipeline_config st1 = requested mv r a"
        by (simp add: st1 rebuild_frame)
      ultimately show ?thesis by blast
    next
      case (Inr q)
      have q: "q = \<lparr>obj_id = next_id ?st0, model_version = mv\<rparr>" "pipeline ?st2 = PObj q"
        using rebuild_returns [OF Inr] by simp_all
      have eq: "prepare_pipeline e st mv r a = reload_adapters e ?st2 q r a"
        by (rule prepare_rebuild_returns [OF rebuild Inr])
      have "fst (reload_adapters e ?st2 q r a) = Inl x" using s eq by simp
      from reload_raises_last [OF this]
      have "last (trace st1) = DeleteAdapters (obj_id q) [''realism'', ''anti_blur''] \<or>
            last (trace st1) = LoadLoras (obj_id q) (loras_for r a)"
        using s eq by simp
      moreover have "pipeline st1 = PObj q" "loaded_pipeline_config st1 = requested mv r a"
        using s eq q(2) by (simp_all add: reload_frame rebuild_frame)
      moreover have "model_version q = mv" by (simp add: q(1))
      ultimately show ?thesis by blast
    qed
  qed
qed

text \<open>
  Claim C9. When the global is bound and \<open>prepare_pipeline\<close> raises, the exception
  comes from the constructor, from \<open>delete_adapters\<close> or from \<open>load_loras\<close>, and the
  call that raised is the last event. Afterwards \<open>loaded_pipeline_config\<close> holds the
  requested values although the pipeline does not: either the global is unbound,
  or it is bound to an object whose adapters were not reloaded, and then the same
  request again returns at once without doing anything.
\<close>

theorem config_written_before_failure:
  assumes "pipeline st \<noteq> Unbound" and "prepare_pipeline e st mv r a = (Inl x, st1)"
  shows "loaded_pipeline_config st1 = requested mv r a \<and>
         (pipeline st1 = Unbound \<and> last (trace st1) = Construct (ctor_args_for e mv) \<or>
          (\<exists>p. pipeline st1 = PObj p \<and> model_version p = mv \<and>
               (last (trace st1) = DeleteAdapters (obj_id p) [''realism'', ''anti_blur''] \<or>
                last (trace st1) = LoadLoras (obj_id p) (loras_for r a)) \<and>
               prepare_pipeline e st1 mv r a = (Inr (), st1)))"
proof -
  note c = prepare_raises_config [OF assms]
  have "prepare_pipeline e st1 mv r a = (Inr (), st1)" if "pipeline st1 = PObj p" for p
    using that c by (simp add: prepare_unchanged)
  with c show ?thesis by blast
qed

theorem config_written_before_failure_witness:
  "prepare_pipeline env_load_fails loaded_world ''aes_stage2'' True False =
     (Inl (OtherException ''No such file''),
      snd (prepare_pipeline env_load_fails loaded_world ''aes_stage2'' True False)) \<and>
   loaded_pipeline_config (snd (prepare_pipeline env_load_fails loaded_world ''aes_stage2'' True False)) =
     requested ''aes_stage2'' True False \<and>
   pipeline (snd (prepare_pipeline env_load_fails loaded_world ''aes_stage2'' True False)) =
     PObj \<lparr>obj_id = 0, model_version = ''aes_stage2''\<rparr> \<and>
   last (trace (snd (prepare_pipeline env_load_fails loaded_world ''aes_stage2'' True False))) =
     LoadLoras 0 (loras_for True False) \<and>
   prepare_pipeline env_load_fails
       (snd (prepare_pipeline env_load_fails loaded_world ''aes_stage2'' True False))
       ''aes_stage2'' True False =
     (Inr (), snd (prepare_pipeline env_load_fails loaded_world ''aes_stage2'' True False))"
proof -
  have h1: "pipeline loaded_world \<noteq> Unbound" by (simp add: loaded_world_def)
  have h2: "prepare_pipeline env_load_fails loaded_world ''aes_stage2'' True False =
     (Inl (OtherException ''No such file''),
      snd (prepare_pipeline env_load_fails loaded_world ''aes_stage2'' True False))"
    by (simp add: prepare_pipeline_def reload_adapters_def emit_def Let_def env_ok_def
        env_load_fails_def loaded_world_def requested_def loras_for_def)
  have pl: "pipeline (snd (prepare_pipeline env_load_fails loaded_world ''aes_stage2'' True False)) =
     PObj \<lparr>obj_id = 0, model_version = ''aes_stage2''\<rparr>"
    by (simp add: prepare_pipeline_def reload_adapters_def emit_def Let_def env_ok_def
        env_load_fails_def loaded_world_def requested_def loras_for_def)
  have la: "last (trace (snd (prepare_pipeline env_load_fails loaded_world ''aes_stage2'' True False))) =
     LoadLoras 0 (loras_for True False)"
    by (simp add: prepare_pipeline_def reload_adapters_def emit_def Let_def env_ok_def
        env_load_fails_def loaded_world_def requested_def loras_for_def)
  from config_written_before_failure [OF h1 h2] h2 pl la show ?thesis by simp
qed

subsection \<open>Claims about generate_image\<close>

lemma generate_image_unfold:
  assumes "prepare_pipeline e st mv r a = (Inr u, st1)" and "pipeline st1 = PObj p"
  shows "generate_image e st ii ci pt sd0 w h g n c gs ge r a mv =
    (let sd = (if sd0 = 0 then torch_seed e (trace st1) AND 0xFFFFFFFF else sd0);
         st2 = (if sd0 = 0 then emit [TorchSeed] st1 else st1);
         ca = \<lparr>pc_id_image = ii, pc_prompt = pt, pc_control_image = ci, pc_seed = sd,
               pc_width = w, pc_height = h, pc_guidance_scale = g, pc_num_steps = n,
               pc_infusenet_conditioning_scale = c, pc_infusenet_guidance_start = gs,
               pc_infusenet_guidance_end = ge\<rparr>
     in case pipeline_call e (trace st2) p ca of
          Inl x \<Rightarrow>
            if is_Exception x
            then (Inr (GrUpdate None None),
                  emit [PipelineCall (obj_id p) ca, Print (str_exc x),
                        GrErrorConstructed (''An error occurred: '' @ str_exc x)] st2)
            else (Inl x, emit [PipelineCall (obj_id p) ca] st2)
        | Inr img \<Rightarrow>
            (Inr (GrUpdate (Some img) (Some (''Generated image, seed = '' @ str_int sd))),
             emit [PipelineCall (obj_id p) ca] st2))"
  using assms
  by (simp add: generate_image_def call_pipeline_def emit_def Let_def split: sum.split)






subsection \<open>Sample runs\<close>

lemmas run_defs = generate_image_def call_pipeline_def prepare_pipeline_def rebuild_def
  reload_adapters_def emit_def Let_def requested_def loras_for_def emitted_def








text \<open>
  What holds of a request whose pipeline call raises an exception that
  \<open>except Exception\<close> catches: the handler returns the empty update, which leaves the
  output component as it was, after printing the exception and constructing one
  \<open>gr.Error\<close> object that is dropped.
\<close>

lemma generate_image_catches:
  assumes "prepare_pipeline e st mv r a = (Inr u, st1)"
    and "pipeline st1 = PObj p"
    and "sd0 \<noteq> 0"
    and "pipeline_call e (trace st1) p
           \<lparr>pc_id_image = ii, pc_prompt = pt, pc_control_image = ci, pc_seed = sd0,
            pc_width = w, pc_height = h, pc_guidance_scale = g, pc_num_steps = n,
            pc_infusenet_conditioning_scale = c, pc_infusenet_guidance_start = gs,
            pc_infusenet_guidance_end = ge\<rparr> = Inl x"
    and "is_Exception x"
    and "generate_image e st ii ci pt sd0 w h g n c gs ge r a mv = (out, st2)"
  shows "out = Inr (GrUpdate None None) \<and> deliver out wd = wd \<and> error_notifications out = 0 \<and>
         filter (\<lambda>ev. case ev of GrErrorConstructed _ \<Rightarrow> True | _ \<Rightarrow> False) (emitted st1 st2) =
           [GrErrorConstructed (''An error occurred: '' @ str_exc x)]"
  using assms(3-6) unfolding generate_image_unfold [OF assms(1,2)]
  by (auto simp add: Let_def deliver_def error_notifications_def emitted_def emit_def)

text \<open>
  Claim C1. A request whose pipeline call raises \<open>CUDA out of memory\<close>: the handler
  catches the exception and returns the empty update, so the output component keeps
  its value; it prints the exception and constructs a \<open>gr.Error\<close> that it does not
  raise, so the handler's outcome carries no error to the browser.
\<close>

theorem generate_image_error_not_surfaced:
  "generate_image env_call_fails loaded_world (Some (Img 0)) None ''Portrait'' 42 864 1152
      3.5 30 1 0 1 False False ''aes_stage2'' =
   (Inr (GrUpdate None None),
    emit [PipelineCall 0
            \<lparr>pc_id_image = Some (Img 0), pc_prompt = ''Portrait'', pc_control_image = None,
             pc_seed = 42, pc_width = 864, pc_height = 1152, pc_guidance_scale = 3.5,
             pc_num_steps = 30, pc_infusenet_conditioning_scale = 1,
             pc_infusenet_guidance_start = 0, pc_infusenet_guidance_end = 1\<rparr>,
          Print ''CUDA out of memory'',
          GrErrorConstructed ''An error occurred: CUDA out of memory'']
      loaded_world) \<and>
   deliver (fst (generate_image env_call_fails loaded_world (Some (Img 0)) None ''Portrait'' 42
      864 1152 3.5 30 1 0 1 False False ''aes_stage2'')) sample_widget = sample_widget \<and>
   error_notifications (fst (generate_image env_call_fails loaded_world (Some (Img 0)) None
      ''Portrait'' 42 864 1152 3.5 30 1 0 1 False False ''aes_stage2'')) = 0"
  by (simp add: run_defs env_call_fails_def env_ok_def loaded_world_def deliver_def
      error_notifications_def)

subsection \<open>Claims about generate_examples and the command line\<close>

text \<open>
  Claim C7. \<open>generate_examples\<close> returns what \<open>generate_image\<close> returns for the same
  images, prompt, seed, toggles and version with width 864, height 1152, guidance
  scale 3.5, 30 steps, conditioning scale 1.0, guidance start 0.0 and guidance
  end 1.0.
\<close>

theorem generate_examples_is_preset_request:
  "generate_examples e st id_img control_img prompt_text seed0 enable_realism enable_anti_blur mv =
   generate_image_request e st
     \<lparr>rq_input_image = id_img, rq_control_image = control_img, rq_prompt = prompt_text,
      rq_seed = seed0, rq_width = 864, rq_height = 1152, rq_guidance_scale = 3.5,
      rq_num_steps = 30, rq_infusenet_conditioning_scale = 1.0,
      rq_infusenet_guidance_start = 0.0, rq_infusenet_guidance_end = 1.0,
      rq_enable_realism = enable_realism, rq_enable_anti_blur = enable_anti_blur,
      rq_model_version = mv\<rparr>"
  by (simp add: generate_examples_def generate_image_request_def)

lemma rebuild_ignores_clip_encoder_path:
  "rebuild (e\<lparr>args := (args e)\<lparr>clip_encoder_path := c\<rparr>\<rparr>) st mv = rebuild e st mv"
  by (simp add: rebuild_def ctor_args_for_def Let_def split: option.split)

lemma reload_ignores_clip_encoder_path:
  "reload_adapters (e\<lparr>args := (args e)\<lparr>clip_encoder_path := c\<rparr>\<rparr>) st p r a =
   reload_adapters e st p r a"
  by (simp add: reload_adapters_def Let_def split: option.split)

lemma prepare_ignores_clip_encoder_path:
  "prepare_pipeline (e\<lparr>args := (args e)\<lparr>clip_encoder_path := c\<rparr>\<rparr>) st mv r a =
   prepare_pipeline e st mv r a"
  unfolding prepare_pipeline_def rebuild_ignores_clip_encoder_path
    reload_ignores_clip_encoder_path
  by (rule refl)

lemma call_pipeline_ignores_clip_encoder_path:
  "call_pipeline (e\<lparr>args := (args e)\<lparr>clip_encoder_path := c\<rparr>\<rparr>) st ca = call_pipeline e st ca"
  by (simp add: call_pipeline_def split: pipeline_var.split)

lemma torch_seed_ignores_clip_encoder_path:
  "torch_seed (e\<lparr>args := (args e)\<lparr>clip_encoder_path := c\<rparr>\<rparr>) = torch_seed e"
  by simp

lemma generate_image_ignores_clip_encoder_path:
  "generate_image (e\<lparr>args := (args e)\<lparr>clip_encoder_path := c\<rparr>\<rparr>) st ii ci pt sd0 w h g n cs
     gs ge r a mv =
   generate_image e st ii ci pt sd0 w h g n cs gs ge r a mv"
  unfolding generate_image_def prepare_ignores_clip_encoder_path
    call_pipeline_ignores_clip_encoder_path torch_seed_ignores_clip_encoder_path
  by (rule refl)

lemma serve_ignores_clip_encoder_path:
  "serve (e\<lparr>args := (args e)\<lparr>clip_encoder_path := c\<rparr>\<rparr>) st rs = serve e st rs"
  by (induction rs arbitrary: st)
    (simp_all add: generate_image_request_def generate_image_ignores_clip_encoder_path)

text \<open>
  Claim C10. Two runs that differ only in the value of \<open>--clip_encoder_path\<close> agree:
  in every configuration step, in every request, and in the whole run of the
  process from line 260 through any sequence of requests.
\<close>

theorem clip_encoder_path_never_read:
  "prepare_pipeline (e\<lparr>args := (args e)\<lparr>clip_encoder_path := c1\<rparr>\<rparr>) st mv r a =
     prepare_pipeline (e\<lparr>args := (args e)\<lparr>clip_encoder_path := c2\<rparr>\<rparr>) st mv r a \<and>
   generate_image (e\<lparr>args := (args e)\<lparr>clip_encoder_path := c1\<rparr>\<rparr>) st ii ci pt sd0 w h g n
       cs gs ge r a mv =
     generate_image (e\<lparr>args := (args e)\<lparr>clip_encoder_path := c2\<rparr>\<rparr>) st ii ci pt sd0 w h g n
       cs gs ge r a mv \<and>
   process_run (e\<lparr>args := (args e)\<lparr>clip_encoder_path := c1\<rparr>\<rparr>) rs =
     process_run (e\<lparr>args := (args e)\<lparr>clip_encoder_path := c2\<rparr>\<rparr>) rs"
  unfolding process_run_def startup_def prepare_ignores_clip_encoder_path
    generate_image_ignores_clip_encoder_path serve_ignores_clip_encoder_path
  by simp

subsection \<open>States the process can reach\<close>

text \<open>
  The claims about a toggle change and a version change assume that the object the
  global is bound to was built for the version the configuration names. That holds
  before line 260 and is kept by every configuration step and every request, whatever
  the libraries do.
\<close>

lemma consistent_initial: "consistent initial_world"
  by (simp add: consistent_def initial_world_def)

lemma consistent_PObj:
  "consistent st \<Longrightarrow> pipeline st = PObj p \<Longrightarrow>
   model_version p = cfg_model_version (loaded_pipeline_config st) \<and> obj_id p < next_id st"
  by (simp add: consistent_def)

lemma prepare_consistent:
  assumes "consistent st"
  shows "consistent (snd (prepare_pipeline e st mv r a))"
proof (cases rule: prepare_cases [where st=st and mv=mv and r=r and a=a])
  case unbound
  then show ?thesis using assms by (simp add: prepare_unbound)
next
  case (unchanged p)
  then show ?thesis using assms by (simp add: prepare_unchanged)
next
  case (reload p)
  then show ?thesis using assms
    by (simp add: prepare_reload consistent_def reload_frame requested_def)
next
  case rebuild
  show ?thesis
  proof (cases "fst (rebuild e (st\<lparr>loaded_pipeline_config := requested mv r a\<rparr>) mv)")
    case (Inl x)
    show ?thesis
      by (simp add: prepare_rebuild_raises [OF rebuild Inl] consistent_def
          rebuild_raises [OF Inl])
  next
    case (Inr q)
    show ?thesis
      using rebuild_returns [OF Inr]
      by (simp add: prepare_rebuild_returns [OF rebuild Inr] consistent_def reload_frame
          rebuild_frame requested_def)
  qed
qed

lemma generate_image_consistent:
  assumes "consistent st"
  shows "consistent (snd (generate_image e st ii ci pt sd0 w h g n c gs ge r a mv))"
proof -
  have c: "consistent (snd (prepare_pipeline e st mv r a))"
    using assms by (rule prepare_consistent)
  have k: "consistent (emit evs s) = consistent s" for evs s
    by (simp add: consistent_def emit_def split: pipeline_var.split)
  show ?thesis
  proof (cases "prepare_pipeline e st mv r a")
    case (Pair res st1)
    then have c1: "consistent st1" using c by simp
    show ?thesis
    proof (cases res)
      case (Inl x)
      then show ?thesis using Pair c1 by (simp add: generate_image_def)
    next
      case (Inr u)
      from prepare_returns [of e st mv r a u st1] Pair Inr
      obtain p where p: "pipeline st1 = PObj p" by auto
      show ?thesis
        unfolding generate_image_unfold [OF Pair [unfolded Inr] p] Let_def
        using c1 by (simp add: k split: sum.split)
    qed
  qed
qed

lemma serve_consistent:
  "consistent st \<Longrightarrow> consistent (snd (serve e st rs))"
proof (induction rs arbitrary: st)
  case Nil
  then show ?case by simp
next
  case (Cons rq rs)
  have "consistent (snd (generate_image_request e st rq))"
    using Cons.prems by (simp add: generate_image_request_def generate_image_consistent)
  from Cons.IH [OF this] show ?case
    by (cases "generate_image_request e st rq") (auto split: prod.split)
qed

end
